theory Spec2Isabelle
  imports Complex_Main
begin

section \<open>The Python client of tinystan: \<open>clients/python/tinystan/model.py\<close>\<close>

text \<open>
  The module drives a compiled Stan model through a C interface. The model below keeps
  the Python side as it is written and takes everything behind the C boundary as a
  parameter: a record \<open>native\<close> of the answers of the shared library, and a record
  \<open>env\<close> for the Python collaborators that live in other modules (\<open>stanio\<close>,
  \<open>.util\<close>, \<open>.output\<close>, \<open>numpy.random\<close>).

  Every function that can raise returns \<open>(exn + 'a) \<times> event list\<close>: the exception or
  the value, together with the native calls made so far, in order. Python integers are
  \<open>int\<close>, C doubles are \<open>real\<close> (they are only passed through), pointers are \<open>nat\<close>
  with \<open>0\<close> for NULL, and text received from the library is taken after its UTF-8
  decoding, as a \<open>string\<close>.
\<close>

subsection \<open>Exceptions\<close>

datatype exn_type =
    RuntimeError | ValueError | KeyboardInterrupt | IndexError | TypeError | OSError

datatype exn = Exn exn_type string

text \<open>\<open>_exception_types = [RuntimeError, ValueError, KeyboardInterrupt]\<close>\<close>

definition exception_types :: "exn_type list" where
  "exception_types = [RuntimeError, ValueError, KeyboardInterrupt]"

subsection \<open>Arrays, outputs and the polymorphic inputs\<close>

text \<open>A numpy array of doubles: its shape and its elements in row-major order.\<close>

record ndarray =
  shape :: "int list"
  elems :: "real list"

text \<open>\<open>np.zeros(shape, dtype=np.float64)\<close>, for a shape without negative entries.\<close>

definition np_zeros :: "int list \<Rightarrow> ndarray" where
  "np_zeros shp = \<lparr>shape = shp, elems = replicate (nat (prod_list shp)) 0\<rparr>"

text \<open>\<open>a.size\<close>\<close>

definition np_size :: "ndarray \<Rightarrow> int" where
  "np_size a = prod_list (shape a)"

text \<open>\<open>len(a)\<close>: the first dimension; a zero-dimensional array has no length.\<close>

definition np_len :: "ndarray \<Rightarrow> exn + int" where
  "np_len a = (case shape a of [] \<Rightarrow> Inl (Exn TypeError ''len() of unsized object'')
                             | n # _ \<Rightarrow> Inr n)"

text \<open>\<open>np.repeat(a[np.newaxis], n, axis=0)\<close>: \<open>n\<close> copies of \<open>a\<close> along a new first axis.\<close>

definition np_repeat_newaxis :: "ndarray \<Rightarrow> int \<Rightarrow> ndarray" where
  "np_repeat_newaxis a n =
     \<lparr>shape = n # shape a, elems = concat (replicate (nat n) (elems a))\<rparr>"

text \<open>
  Modelled from the spec: \<open>StanOutput\<close> (module \<open>.output\<close>, not among the sources) is
  the result value "pairing parameter names with the populated buffer, attaching any
  optional secondary outputs".
\<close>

record stan_output =
  parameters :: "string list"
  data :: ndarray
  metric :: "ndarray option"
  hessian :: "ndarray option"

text \<open>\<open>StanOutput(param_names, out)\<close>\<close>

definition StanOutput :: "string list \<Rightarrow> ndarray \<Rightarrow> stan_output" where
  "StanOutput names out = \<lparr>parameters = names, data = out, metric = None, hessian = None\<rparr>"

text \<open>
  The argument \<open>data\<close> (and each initial value): a path object, a string, or a
  dictionary of type \<open>'d\<close>.
\<close>

datatype 'd stan_data = PathLike string | Str string | Dict 'd

text \<open>What \<open>inits\<close> is once it is not a \<open>StanOutput\<close>: a list, or one value.\<close>

datatype 'd plain_inits = InitsList "'d stan_data list" | InitsOne "'d stan_data"

datatype 'd inits = InitsOutput stan_output | Inits "'d plain_inits"

datatype 'd mode = ModeOutput stan_output | ModeArray ndarray | ModeData "'d stan_data"

datatype HMCMetric = UNIT | DENSE | DIAGONAL

fun HMCMetric_value :: "HMCMetric \<Rightarrow> int" where
  "HMCMetric_value UNIT = 0"
| "HMCMetric_value DENSE = 1"
| "HMCMetric_value DIAGONAL = 2"

datatype OptimizationAlgorithm = NEWTON | BFGS | LBFGS

fun OptimizationAlgorithm_value :: "OptimizationAlgorithm \<Rightarrow> int" where
  "OptimizationAlgorithm_value NEWTON = 0"
| "OptimizationAlgorithm_value BFGS = 1"
| "OptimizationAlgorithm_value LBFGS = 2"

subsection \<open>The fixed column names\<close>

definition HMC_SAMPLER_VARIABLES :: "string list" where
  "HMC_SAMPLER_VARIABLES =
     [''lp__'', ''accept_stat__'', ''stepsize__'', ''treedepth__'', ''n_leapfrog__'',
      ''divergent__'', ''energy__'']"

definition PATHFINDER_VARIABLES :: "string list" where
  "PATHFINDER_VARIABLES = [''lp_approx__'', ''lp__'']"

definition OPTIMIZE_VARIABLES :: "string list" where
  "OPTIMIZE_VARIABLES = [''lp__'']"

definition LAPLACE_VARIABLES :: "string list" where
  "LAPLACE_VARIABLES = [''log_p__'', ''log_q__'']"

subsection \<open>Python's string operations\<close>

text \<open>\<open>str(n)\<close> for an integer, used by the f-strings of the error messages.\<close>

definition digit_char :: "nat \<Rightarrow> char" where
  "digit_char d = ''0123456789'' ! d"

function str_nat :: "nat \<Rightarrow> string" where
  "str_nat n = (if n < 10 then [digit_char n] else str_nat (n div 10) @ [digit_char (n mod 10)])"
  by pat_completeness auto
termination
  by (relation "measure id") auto

definition str_int :: "int \<Rightarrow> string" where
  "str_int i = (if i < 0 then CHR ''-'' # str_nat (nat (- i)) else str_nat (nat i))"

text \<open>\<open>sep.join(xs)\<close>\<close>

fun join :: "'a list \<Rightarrow> 'a list list \<Rightarrow> 'a list" where
  "join sep [] = []"
| "join sep [x] = x"
| "join sep (x # y # ys) = x @ sep @ join sep (y # ys)"

text \<open>The \<open>repr\<close> of a tuple of integers: \<open>()\<close>, \<open>(3,)\<close>, \<open>(4, 3, 3)\<close>.\<close>

fun repr_tuple :: "int list \<Rightarrow> string" where
  "repr_tuple [] = ''()''"
| "repr_tuple [x] = ''('' @ str_int x @ '',)''"
| "repr_tuple xs = ''('' @ join '', '' (map str_int xs) @ '')''"

text \<open>
  \<open>s.split(c)\<close> for a one-character separator: the pieces between the separators, so an
  empty string gives one empty piece.
\<close>

fun py_split :: "'a \<Rightarrow> 'a list \<Rightarrow> 'a list list" where
  "py_split c [] = [[]]"
| "py_split c (x # xs) =
     (if x = c then [] # py_split c xs
      else (case py_split c xs of [] \<Rightarrow> [[x]] | w # ws \<Rightarrow> (x # w) # ws))"

text \<open>
  \<open>str.isspace\<close> on a character below 256: tab to carriage return, the four
  separators \<open>0x1c\<close> to \<open>0x1f\<close>, the space, \<open>0x85\<close> and \<open>0xa0\<close>.
\<close>

definition isspace :: "char \<Rightarrow> bool" where
  "isspace c = (let n = of_char c :: nat in
                 (9 \<le> n \<and> n \<le> 13) \<or> (28 \<le> n \<and> n \<le> 32) \<or> n = 133 \<or> n = 160)"

text \<open>\<open>s.strip()\<close>\<close>

definition strip :: "string \<Rightarrow> string" where
  "strip s = rev (dropWhile isspace (rev (dropWhile isspace s)))"

subsection \<open>The C boundary\<close>

type_synonym handle = nat  \<comment> \<open>a model pointer; \<open>0\<close> is NULL\<close>
type_synonym errh = nat  \<comment> \<open>what the error slot holds after a call; \<open>0\<close> is NULL\<close>
type_synonym bytes = string

text \<open>The argument lists of the four algorithm entry points, in the order of the call.\<close>

record sample_call =
  sc_model :: handle
  sc_num_chains :: int
  sc_inits :: "bytes option"
  sc_seed :: int
  sc_id :: int
  sc_init_radius :: real
  sc_num_warmup :: int
  sc_num_samples :: int
  sc_metric :: int
  sc_init_inv_metric :: "ndarray option"
  sc_adapt :: bool
  sc_delta :: real
  sc_gamma :: real
  sc_kappa :: real
  sc_t0 :: real
  sc_init_buffer :: int
  sc_term_buffer :: int
  sc_window :: int
  sc_save_warmup :: bool
  sc_stepsize :: real
  sc_stepsize_jitter :: real
  sc_max_depth :: int
  sc_refresh :: int
  sc_num_threads :: int
  sc_out :: ndarray
  sc_out_size :: int
  sc_metric_out :: "ndarray option"

record pathfinder_call =
  pc_model :: handle
  pc_num_paths :: int
  pc_inits :: "bytes option"
  pc_seed :: int
  pc_id :: int
  pc_init_radius :: real
  pc_num_draws :: int
  pc_max_history_size :: int
  pc_init_alpha :: real
  pc_tol_obj :: real
  pc_tol_rel_obj :: real
  pc_tol_grad :: real
  pc_tol_rel_grad :: real
  pc_tol_param :: real
  pc_num_iterations :: int
  pc_num_elbo_draws :: int
  pc_num_multi_draws :: int
  pc_calculate_lp :: bool
  pc_psis_resample :: bool
  pc_refresh :: int
  pc_num_threads :: int
  pc_out :: ndarray
  pc_out_size :: int

record optimize_call =
  oc_model :: handle
  oc_inits :: "bytes option"
  oc_seed :: int
  oc_id :: int
  oc_init_radius :: real
  oc_algorithm :: int
  oc_num_iterations :: int
  oc_jacobian :: bool
  oc_max_history_size :: int
  oc_init_alpha :: real
  oc_tol_obj :: real
  oc_tol_rel_obj :: real
  oc_tol_grad :: real
  oc_tol_rel_grad :: real
  oc_tol_param :: real
  oc_refresh :: int
  oc_num_threads :: int
  oc_out :: ndarray
  oc_out_size :: int

record laplace_call =
  lc_model :: handle
  lc_mode_array :: "ndarray option"
  lc_mode_json :: "bytes option"
  lc_seed :: int
  lc_num_draws :: int
  lc_jacobian :: bool
  lc_calculate_lp :: bool
  lc_refresh :: int
  lc_num_threads :: int
  lc_out :: ndarray
  lc_out_size :: int
  lc_hessian_out :: "ndarray option"

text \<open>
  The shared library, as the Python side sees it. An algorithm entry point returns its
  status code, the content of the error slot, and what it wrote into the output buffer
  and into the secondary buffer.
\<close>

record native =
  tinystan_create_model :: "bytes \<Rightarrow> int \<Rightarrow> handle \<times> errh"
  tinystan_model_param_names :: "handle \<Rightarrow> string"
  tinystan_model_num_free_params :: "handle \<Rightarrow> nat"
  tinystan_sample :: "sample_call \<Rightarrow> int \<times> errh \<times> real list \<times> real list"
  tinystan_pathfinder :: "pathfinder_call \<Rightarrow> int \<times> errh \<times> real list"
  tinystan_optimize :: "optimize_call \<Rightarrow> int \<times> errh \<times> real list"
  tinystan_laplace_sample :: "laplace_call \<Rightarrow> int \<times> errh \<times> real list \<times> real list"
  tinystan_get_error_message :: "errh \<Rightarrow> string"
  tinystan_get_error_type :: "errh \<Rightarrow> int"
  tinystan_separator_char :: char

text \<open>The calls that cross the boundary, recorded in the order they are made.\<close>

datatype event =
    CreateModel bytes int
  | DestroyModel handle
  | ParamNames handle
  | NumFreeParams handle
  | FfiSample sample_call
  | FfiPathfinder pathfinder_call
  | FfiOptimize optimize_call
  | FfiLaplace laplace_call
  | GetErrorMsg errh
  | GetErrorType errh
  | FreeError errh

text \<open>
  The Python collaborators outside this module: the draw of \<open>np.random.randint\<close>,
  \<open>validate_readable\<close> (which raises for a path that cannot be read),
  \<open>stanio.dump_stan_json\<close> and \<open>StanOutput.create_inits\<close>.
\<close>

record 'd env =
  randint :: int
  validate_readable :: "string \<Rightarrow> exn option"
  dump_stan_json :: "'d \<Rightarrow> string"
  create_inits :: "stan_output \<Rightarrow> int \<Rightarrow> int \<Rightarrow> 'd plain_inits"

subsection \<open>Running with exceptions and a trace of native calls\<close>

type_synonym 'a run = "(exn + 'a) \<times> event list"

definition ret :: "'a \<Rightarrow> 'a run" where
  "ret x = (Inr x, [])"

definition raise :: "exn \<Rightarrow> 'a run" where
  "raise e = (Inl e, [])"

text \<open>A native call: it is recorded, and \<open>r\<close> is what it returned.\<close>

definition native_call :: "event \<Rightarrow> 'a \<Rightarrow> 'a run" where
  "native_call ev r = (Inr r, [ev])"

text \<open>Sequencing: an exception in the first part skips the rest.\<close>

definition bind :: "'a run \<Rightarrow> ('a \<Rightarrow> 'b run) \<Rightarrow> 'b run" where
  "bind m f = (case m of
                 (Inl e, t) \<Rightarrow> (Inl e, t)
               | (Inr x, t) \<Rightarrow> (case f x of (r, t') \<Rightarrow> (r, t @ t')))"

text \<open>\<open>try: body finally: fin\<close>: \<open>fin\<close> runs however \<open>body\<close> ends.\<close>

definition try_finally :: "'a run \<Rightarrow> unit run \<Rightarrow> 'a run" where
  "try_finally body fin = (case body of (r, t) \<Rightarrow>
                             (case fin of
                                (Inl e, t') \<Rightarrow> (Inl e, t @ t')
                              | (Inr _, t') \<Rightarrow> (r, t @ t')))"

text \<open>A Python operation that raises but makes no native call.\<close>

definition lift :: "exn + 'a \<Rightarrow> 'a run" where
  "lift r = (r, [])"

subsection \<open>Module-level functions\<close>

text \<open>
  \<open>encode_stan_json\<close>: a path is checked and passed on, a string is passed on, anything
  else is serialised.
\<close>

definition encode_stan_json :: "'d env \<Rightarrow> 'd stan_data \<Rightarrow> exn + bytes" where
  "encode_stan_json E d =
     (case d of
        PathLike p \<Rightarrow> (case validate_readable E p of Some e \<Rightarrow> Inl e | None \<Rightarrow> Inr p)
      | Str s \<Rightarrow> Inr s
      | Dict v \<Rightarrow> Inr (dump_stan_json E v))"

text \<open>\<open>rand_u32\<close>: one draw of \<open>np.random.randint(0, 2**32 - 1, dtype=np.uint32)\<close>.\<close>

definition rand_u32 :: "'d env \<Rightarrow> int" where
  "rand_u32 E = randint E"

text \<open>
  \<open>seed or rand_u32()\<close>, the first statement after the size checks of every invoker:
  Python's \<open>or\<close> keeps \<open>seed\<close> when it is truthy, and \<open>None\<close> and \<open>0\<close> are not.
\<close>

definition seed_or_rand :: "'d env \<Rightarrow> int option \<Rightarrow> int" where
  "seed_or_rand E seed =
     (case seed of None \<Rightarrow> rand_u32 E | Some s \<Rightarrow> if s = 0 then rand_u32 E else s)"

text \<open>\<open>a[1:]\<close> on a one-dimensional array.\<close>

definition np_tail :: "ndarray \<Rightarrow> ndarray" where
  "np_tail a = \<lparr>shape = map (\<lambda>n. max 0 (n - 1)) (shape a), elems = tl (elems a)\<rparr>"

fun preprocess_laplace_inputs ::
  "'d env \<Rightarrow> 'd mode \<Rightarrow> exn + (ndarray option \<times> bytes option)" where
  "preprocess_laplace_inputs E (ModeOutput out) =
     (if length (shape (data out)) = 1 then Inr (Some (np_tail (data out)), None)
      else Inl (Exn ValueError ''Laplace can only be used with Optimization output''))"
| "preprocess_laplace_inputs E (ModeArray arr) = Inr (Some arr, None)"
| "preprocess_laplace_inputs E (ModeData d) =
     (case encode_stan_json E d of Inl e \<Rightarrow> Inl e | Inr b \<Rightarrow> Inr (None, Some b))"

subsection \<open>The methods of \<open>Model\<close>\<close>

text \<open>
  A status code is the integer an algorithm returned, or the boolean \<open>not model\<close> of
  \<open>_get_model\<close>.
\<close>

datatype status = PyInt int | PyBool bool

fun status_nonzero :: "status \<Rightarrow> bool" where
  "status_nonzero (PyInt i) = (i \<noteq> 0)"
| "status_nonzero (PyBool b) = b"

fun str_status :: "status \<Rightarrow> string" where
  "str_status (PyInt i) = str_int i"
| "str_status (PyBool b) = (if b then ''True'' else ''False'')"

text \<open>\<open>xs[i]\<close> on a Python list: a negative index counts from the end.\<close>

definition list_getitem :: "'a list \<Rightarrow> int \<Rightarrow> exn + 'a" where
  "list_getitem xs i =
     (if 0 \<le> i \<and> i < int (length xs) then Inr (xs ! nat i)
      else if - int (length xs) \<le> i \<and> i < 0 then Inr (xs ! nat (int (length xs) + i))
      else Inl (Exn IndexError ''list index out of range''))"

text \<open>\<open>Model._raise_for_error\<close>\<close>

definition raise_for_error :: "native \<Rightarrow> status \<Rightarrow> errh \<Rightarrow> unit run" where
  "raise_for_error N rc err =
     (if status_nonzero rc then
        (if err \<noteq> 0 then
           bind (native_call (GetErrorMsg err) (tinystan_get_error_message N err)) (\<lambda>msg.
           bind (native_call (GetErrorType err) (tinystan_get_error_type N err)) (\<lambda>exception_type.
           bind (native_call (FreeError err) ()) (\<lambda>_.
           bind (lift (list_getitem exception_types exception_type)) (\<lambda>exn.
           raise (Exn exn msg)))))
         else raise (Exn RuntimeError
                      (''Unknown error, function returned code '' @ str_status rc)))
      else ret ())"

text \<open>
  \<open>Model._get_model\<close>, a context manager: \<open>body\<close> is the block under the \<open>with\<close>.
\<close>

definition get_model ::
  "'d env \<Rightarrow> native \<Rightarrow> 'd stan_data \<Rightarrow> int \<Rightarrow> (handle \<Rightarrow> 'a run) \<Rightarrow> 'a run" where
  "get_model E N dat seed body =
     bind (lift (encode_stan_json E dat)) (\<lambda>enc.
     bind (native_call (CreateModel enc seed) (tinystan_create_model N enc seed))
       (\<lambda>(model, err).
     bind (raise_for_error N (PyBool (model = 0)) err) (\<lambda>_.
     try_finally (body model) (native_call (DestroyModel model) ()))))"

text \<open>\<open>Model._encode_inits\<close>\<close>

fun encode_each :: "'d env \<Rightarrow> 'd stan_data list \<Rightarrow> exn + bytes list" where
  "encode_each E [] = Inr []"
| "encode_each E (x # xs) =
     (case encode_stan_json E x of
        Inl e \<Rightarrow> Inl e
      | Inr b \<Rightarrow> (case encode_each E xs of Inl e \<Rightarrow> Inl e | Inr bs \<Rightarrow> Inr (b # bs)))"

definition encode_inits ::
  "'d env \<Rightarrow> native \<Rightarrow> 'd inits option \<Rightarrow> int \<Rightarrow> int \<Rightarrow> exn + bytes option" where
  "encode_inits E N inits nchains seed =
     (case inits of
        None \<Rightarrow> Inr None
      | Some i \<Rightarrow>
          (case (case i of InitsOutput out \<Rightarrow> create_inits E out nchains seed | Inits p \<Rightarrow> p) of
             InitsList xs \<Rightarrow>
               (case encode_each E xs of
                  Inl e \<Rightarrow> Inl e
                | Inr segs \<Rightarrow> Inr (Some (join [tinystan_separator_char N] segs)))
           | InitsOne x \<Rightarrow>
               (case encode_stan_json E x of Inl e \<Rightarrow> Inl e | Inr b \<Rightarrow> Inr (Some b))))"

text \<open>\<open>Model._get_parameter_names\<close>\<close>

definition get_parameter_names :: "native \<Rightarrow> handle \<Rightarrow> string list run" where
  "get_parameter_names N model =
     bind (native_call (ParamNames model) (tinystan_model_param_names N model)) (\<lambda>raw.
     let comma_separated = strip raw in
     if comma_separated = [] then ret [] else ret (py_split CHR '','' comma_separated))"

subsection \<open>\<open>Model.sample\<close>\<close>

record 'd sample_args =
  sa_data :: "'d stan_data"
  sa_num_chains :: int
  sa_inits :: "'d inits option"
  sa_seed :: "int option"
  sa_id :: int
  sa_init_radius :: real
  sa_num_warmup :: int
  sa_num_samples :: int
  sa_metric :: HMCMetric
  sa_init_inv_metric :: "ndarray option"
  sa_save_metric :: bool
  sa_adapt :: bool
  sa_delta :: real
  sa_gamma :: real
  sa_kappa :: real
  sa_t0 :: real
  sa_init_buffer :: int
  sa_term_buffer :: int
  sa_window :: int
  sa_save_warmup :: bool
  sa_stepsize :: real
  sa_stepsize_jitter :: real
  sa_max_depth :: int
  sa_refresh :: int
  sa_num_threads :: int

text \<open>
  The block under \<open>with self._get_model(data, seed) as model\<close>; it leaves the names,
  the buffer and the metric buffer to the statements after the block.
\<close>

definition sample_body ::
  "'d env \<Rightarrow> native \<Rightarrow> 'd sample_args \<Rightarrow> int \<Rightarrow> handle \<Rightarrow>
     (string list \<times> ndarray \<times> ndarray option) run" where
  "sample_body E N a seed model =
     bind (native_call (NumFreeParams model) (int (tinystan_model_num_free_params N model)))
       (\<lambda>model_params.
     if model_params = 0 then raise (Exn ValueError ''Model has no parameters to sample.'')
     else
     bind (get_parameter_names N model) (\<lambda>names.
     let param_names = HMC_SAMPLER_VARIABLES @ names;
         num_params = int (length param_names);
         num_draws = sa_num_samples a + sa_num_warmup a * of_bool (sa_save_warmup a);
         out = np_zeros [sa_num_chains a, num_draws, num_params];
         metric_size = (if sa_metric a = DENSE then [model_params, model_params]
                        else [model_params])
     in
     bind (case sa_init_inv_metric a of
             None \<Rightarrow> ret None
           | Some m \<Rightarrow>
               if shape m = metric_size then ret (Some (np_repeat_newaxis m (sa_num_chains a)))
               else if shape m = sa_num_chains a # metric_size then ret (Some m)
               else raise (Exn ValueError
                            (''Invalid initial metric size. Expected a '' @ repr_tuple metric_size
                             @ '' or '' @ repr_tuple (sa_num_chains a # metric_size)
                             @ '' matrix.''))) (\<lambda>init_inv_metric.
     let metric_out = (if sa_save_metric a then Some (np_zeros (sa_num_chains a # metric_size))
                       else None)
     in
     bind (lift (encode_inits E N (sa_inits a) (sa_num_chains a) seed)) (\<lambda>inits_encoded.
     let call = \<lparr>sc_model = model, sc_num_chains = sa_num_chains a, sc_inits = inits_encoded,
                 sc_seed = seed, sc_id = sa_id a, sc_init_radius = sa_init_radius a,
                 sc_num_warmup = sa_num_warmup a, sc_num_samples = sa_num_samples a,
                 sc_metric = HMCMetric_value (sa_metric a),
                 sc_init_inv_metric = init_inv_metric, sc_adapt = sa_adapt a,
                 sc_delta = sa_delta a, sc_gamma = sa_gamma a, sc_kappa = sa_kappa a,
                 sc_t0 = sa_t0 a, sc_init_buffer = sa_init_buffer a,
                 sc_term_buffer = sa_term_buffer a, sc_window = sa_window a,
                 sc_save_warmup = sa_save_warmup a, sc_stepsize = sa_stepsize a,
                 sc_stepsize_jitter = sa_stepsize_jitter a, sc_max_depth = sa_max_depth a,
                 sc_refresh = sa_refresh a, sc_num_threads = sa_num_threads a,
                 sc_out = out, sc_out_size = np_size out, sc_metric_out = metric_out\<rparr>
     in
     bind (native_call (FfiSample call) (tinystan_sample N call))
       (\<lambda>(rc, err, written, metric_written).
     bind (raise_for_error N (PyInt rc) err) (\<lambda>_.
     ret (param_names, out\<lparr>elems := written\<rparr>,
          map_option (\<lambda>m. m\<lparr>elems := metric_written\<rparr>) metric_out)))))))"

definition sample :: "'d env \<Rightarrow> native \<Rightarrow> 'd sample_args \<Rightarrow> stan_output run" where
  "sample E N a =
     (if sa_num_chains a < 1 then raise (Exn ValueError ''num_chains must be at least 1'')
      else if sa_num_warmup a < 0 then
        raise (Exn ValueError ''num_warmup must be non-negative'')
      else if sa_num_samples a < 1 then
        raise (Exn ValueError ''num_samples must be at least 1'')
      else
        (let seed = seed_or_rand E (sa_seed a) in
         bind (get_model E N (sa_data a) seed (sample_body E N a seed))
           (\<lambda>(param_names, out, metric_out).
         let output = StanOutput param_names out in
         ret (if sa_save_metric a then output\<lparr>metric := metric_out\<rparr> else output))))"

subsection \<open>\<open>Model.pathfinder\<close>\<close>

record 'd pathfinder_args =
  pa_data :: "'d stan_data"
  pa_num_paths :: int
  pa_inits :: "'d inits option"
  pa_seed :: "int option"
  pa_id :: int
  pa_init_radius :: real
  pa_num_draws :: int
  pa_max_history_size :: int
  pa_init_alpha :: real
  pa_tol_obj :: real
  pa_tol_rel_obj :: real
  pa_tol_grad :: real
  pa_tol_rel_grad :: real
  pa_tol_param :: real
  pa_num_iterations :: int
  pa_num_elbo_draws :: int
  pa_num_multi_draws :: int
  pa_calculate_lp :: bool
  pa_psis_resample :: bool
  pa_refresh :: int
  pa_num_threads :: int

definition pathfinder_body ::
  "'d env \<Rightarrow> native \<Rightarrow> 'd pathfinder_args \<Rightarrow> int \<Rightarrow> int \<Rightarrow> handle \<Rightarrow>
     (string list \<times> ndarray) run" where
  "pathfinder_body E N a output_size seed model =
     bind (native_call (NumFreeParams model) (int (tinystan_model_num_free_params N model)))
       (\<lambda>model_params.
     if model_params = 0 then raise (Exn ValueError ''Model has no parameters.'')
     else
     bind (get_parameter_names N model) (\<lambda>names.
     let param_names = PATHFINDER_VARIABLES @ names;
         num_params = int (length param_names);
         out = np_zeros [output_size, num_params]
     in
     bind (lift (encode_inits E N (pa_inits a) (pa_num_paths a) seed)) (\<lambda>inits_encoded.
     let call = \<lparr>pc_model = model, pc_num_paths = pa_num_paths a, pc_inits = inits_encoded,
                 pc_seed = seed, pc_id = pa_id a, pc_init_radius = pa_init_radius a,
                 pc_num_draws = pa_num_draws a, pc_max_history_size = pa_max_history_size a,
                 pc_init_alpha = pa_init_alpha a, pc_tol_obj = pa_tol_obj a,
                 pc_tol_rel_obj = pa_tol_rel_obj a, pc_tol_grad = pa_tol_grad a,
                 pc_tol_rel_grad = pa_tol_rel_grad a, pc_tol_param = pa_tol_param a,
                 pc_num_iterations = pa_num_iterations a,
                 pc_num_elbo_draws = pa_num_elbo_draws a,
                 pc_num_multi_draws = pa_num_multi_draws a,
                 pc_calculate_lp = pa_calculate_lp a, pc_psis_resample = pa_psis_resample a,
                 pc_refresh = pa_refresh a, pc_num_threads = pa_num_threads a,
                 pc_out = out, pc_out_size = np_size out\<rparr>
     in
     bind (native_call (FfiPathfinder call) (tinystan_pathfinder N call))
       (\<lambda>(rc, err, written).
     bind (raise_for_error N (PyInt rc) err) (\<lambda>_.
     ret (param_names, out\<lparr>elems := written\<rparr>))))))"

definition pathfinder :: "'d env \<Rightarrow> native \<Rightarrow> 'd pathfinder_args \<Rightarrow> stan_output run" where
  "pathfinder E N a =
     (if pa_num_draws a < 1 then raise (Exn ValueError ''num_draws must be at least 1'')
      else if pa_num_paths a < 1 then raise (Exn ValueError ''num_paths must be at least 1'')
      else if pa_num_multi_draws a < 1 then
        raise (Exn ValueError ''num_multi_draws must be at least 1'')
      else
        (let output_size = (if pa_calculate_lp a \<and> pa_psis_resample a then pa_num_multi_draws a
                            else pa_num_draws a * pa_num_paths a);
             seed = seed_or_rand E (pa_seed a)
         in
         bind (get_model E N (pa_data a) seed (pathfinder_body E N a output_size seed))
           (\<lambda>(param_names, out). ret (StanOutput param_names out))))"

subsection \<open>\<open>Model.optimize\<close>\<close>

record 'd optimize_args =
  oa_data :: "'d stan_data"
  oa_init :: "'d inits option"
  oa_seed :: "int option"
  oa_id :: int
  oa_init_radius :: real
  oa_algorithm :: OptimizationAlgorithm
  oa_jacobian :: bool
  oa_num_iterations :: int
  oa_max_history_size :: int
  oa_init_alpha :: real
  oa_tol_obj :: real
  oa_tol_rel_obj :: real
  oa_tol_grad :: real
  oa_tol_rel_grad :: real
  oa_tol_param :: real
  oa_refresh :: int
  oa_num_threads :: int

definition optimize_body ::
  "'d env \<Rightarrow> native \<Rightarrow> 'd optimize_args \<Rightarrow> int \<Rightarrow> handle \<Rightarrow> (string list \<times> ndarray) run"
  where
  "optimize_body E N a seed model =
     bind (get_parameter_names N model) (\<lambda>names.
     let param_names = OPTIMIZE_VARIABLES @ names;
         num_params = int (length param_names);
         out = np_zeros [num_params]
     in
     bind (lift (encode_inits E N (oa_init a) 1 seed)) (\<lambda>inits_encoded.
     let call = \<lparr>oc_model = model, oc_inits = inits_encoded, oc_seed = seed, oc_id = oa_id a,
                 oc_init_radius = oa_init_radius a,
                 oc_algorithm = OptimizationAlgorithm_value (oa_algorithm a),
                 oc_num_iterations = oa_num_iterations a, oc_jacobian = oa_jacobian a,
                 oc_max_history_size = oa_max_history_size a,
                 oc_init_alpha = oa_init_alpha a, oc_tol_obj = oa_tol_obj a,
                 oc_tol_rel_obj = oa_tol_rel_obj a, oc_tol_grad = oa_tol_grad a,
                 oc_tol_rel_grad = oa_tol_rel_grad a, oc_tol_param = oa_tol_param a,
                 oc_refresh = oa_refresh a, oc_num_threads = oa_num_threads a,
                 oc_out = out, oc_out_size = np_size out\<rparr>
     in
     bind (native_call (FfiOptimize call) (tinystan_optimize N call))
       (\<lambda>(rc, err, written).
     bind (raise_for_error N (PyInt rc) err) (\<lambda>_.
     ret (param_names, out\<lparr>elems := written\<rparr>)))))"

definition optimize :: "'d env \<Rightarrow> native \<Rightarrow> 'd optimize_args \<Rightarrow> stan_output run" where
  "optimize E N a =
     (let seed = seed_or_rand E (oa_seed a) in
      bind (get_model E N (oa_data a) seed (optimize_body E N a seed))
        (\<lambda>(param_names, out). ret (StanOutput param_names out)))"

subsection \<open>\<open>Model.laplace_sample\<close>\<close>

record 'd laplace_args =
  la_mode :: "'d mode"
  la_data :: "'d stan_data"
  la_num_draws :: int
  la_jacobian :: bool
  la_calculate_lp :: bool
  la_save_hessian :: bool
  la_seed :: "int option"
  la_refresh :: int
  la_num_threads :: int

definition laplace_body ::
  "'d env \<Rightarrow> native \<Rightarrow> 'd laplace_args \<Rightarrow> int \<Rightarrow> ndarray option \<Rightarrow> bytes option \<Rightarrow> handle \<Rightarrow>
     (string list \<times> ndarray \<times> ndarray option) run" where
  "laplace_body E N a seed mode_array mode_json model =
     bind (get_parameter_names N model) (\<lambda>names.
     let param_names = LAPLACE_VARIABLES @ names;
         num_params = int (length param_names)
     in
     bind (case mode_array of
             None \<Rightarrow> ret ()
           | Some m \<Rightarrow>
               bind (lift (np_len m)) (\<lambda>len_mode.
               if len_mode \<noteq> num_params - int (length LAPLACE_VARIABLES) then
                 raise (Exn ValueError
                         (''Mode array has incorrect length. Expected ''
                          @ str_int (num_params - int (length LAPLACE_VARIABLES))
                          @ '' but got '' @ str_int len_mode))
               else ret ())) (\<lambda>_.
     let out = np_zeros [la_num_draws a, num_params] in
     bind (native_call (NumFreeParams model) (int (tinystan_model_num_free_params N model)))
       (\<lambda>model_params.
     let hessian_out = (if la_save_hessian a then Some (np_zeros [model_params, model_params])
                        else None);
         call = \<lparr>lc_model = model, lc_mode_array = mode_array, lc_mode_json = mode_json,
                 lc_seed = seed, lc_num_draws = la_num_draws a, lc_jacobian = la_jacobian a,
                 lc_calculate_lp = la_calculate_lp a, lc_refresh = la_refresh a,
                 lc_num_threads = la_num_threads a, lc_out = out, lc_out_size = np_size out,
                 lc_hessian_out = hessian_out\<rparr>
     in
     bind (native_call (FfiLaplace call) (tinystan_laplace_sample N call))
       (\<lambda>(rc, err, written, hessian_written).
     bind (raise_for_error N (PyInt rc) err) (\<lambda>_.
     ret (param_names, out\<lparr>elems := written\<rparr>,
          map_option (\<lambda>h. h\<lparr>elems := hessian_written\<rparr>) hessian_out))))))"

definition laplace_sample :: "'d env \<Rightarrow> native \<Rightarrow> 'd laplace_args \<Rightarrow> stan_output run" where
  "laplace_sample E N a =
     (if la_num_draws a < 1 then raise (Exn ValueError ''num_draws must be at least 1'')
      else
        (let seed = seed_or_rand E (la_seed a) in
         bind (lift (preprocess_laplace_inputs E (la_mode a))) (\<lambda>(mode_array, mode_json).
         bind (get_model E N (la_data a) seed (laplace_body E N a seed mode_array mode_json))
           (\<lambda>(param_names, out, hessian_out).
         let output = StanOutput param_names out in
         ret (if la_save_hessian a then output\<lparr>hessian := hessian_out\<rparr> else output)))))"

subsection \<open>Reading a trace\<close>

text \<open>The model constructions, the destructions and the sampling calls of a trace, in order.\<close>

fun creates :: "event list \<Rightarrow> (bytes \<times> int) list" where
  "creates [] = []"
| "creates (CreateModel enc seed # t) = (enc, seed) # creates t"
| "creates (_ # t) = creates t"

fun destroys :: "event list \<Rightarrow> handle list" where
  "destroys [] = []"
| "destroys (DestroyModel h # t) = h # destroys t"
| "destroys (_ # t) = destroys t"

fun sample_calls :: "event list \<Rightarrow> sample_call list" where
  "sample_calls [] = []"
| "sample_calls (FfiSample c # t) = c # sample_calls t"
| "sample_calls (_ # t) = sample_calls t"

text \<open>
  The bracket of a session, read off a trace: no construction and no destruction; or one
  construction, the first event, which either returned NULL and is followed by no
  destruction, or returned a handle that is destroyed once, by the last event.
\<close>

definition strict_bracket :: "native \<Rightarrow> event list \<Rightarrow> bool" where
  "strict_bracket N t =
     (case creates t of
        [] \<Rightarrow> destroys t = []
      | [(enc, seed)] \<Rightarrow>
          hd t = CreateModel enc seed \<and>
          (let h = fst (tinystan_create_model N enc seed) in
           if h = 0 then destroys t = []
           else destroys t = [h] \<and> last t = DestroyModel h)
      | _ \<Rightarrow> False)"

text \<open>A computation that neither constructs nor destroys a model.\<close>

definition quiet :: "'a run \<Rightarrow> bool" where
  "quiet m = (creates (snd m) = [] \<and> destroys (snd m) = [])"

subsection \<open>A library and arguments to run the methods on\<close>

text \<open>
  A library that builds four models, chosen by the data it is given: a model with the
  one parameter \<open>theta\<close> (handle 1), a model with a simplex of three components, which
  has two free parameters (handle 2), a model without parameters (handle 3) and a model
  whose sampling fails (handle 4). The data \<open>bad\<close> is rejected.
\<close>

definition demo_native :: native where
  "demo_native =
     \<lparr>tinystan_create_model =
        (\<lambda>enc seed. if enc = ''bad'' then (0, 9) else if enc = ''simplex'' then (2, 0)
                     else if enc = ''empty'' then (3, 0) else if enc = ''throws'' then (4, 0)
                     else (1, 0)),
      tinystan_model_param_names =
        (\<lambda>h. if h = 2 then ''theta.1,theta.2,theta.3'' else if h = 3 then [] else ''theta''),
      tinystan_model_num_free_params = (\<lambda>h. if h = 2 then 2 else if h = 3 then 0 else 1),
      tinystan_sample =
        (\<lambda>c. if sc_model c = 4 then (1, 8, elems (sc_out c), [])
              else (0, 0, elems (sc_out c), [])),
      tinystan_pathfinder = (\<lambda>c. (0, 0, elems (pc_out c))),
      tinystan_optimize = (\<lambda>c. (0, 0, elems (oc_out c))),
      tinystan_laplace_sample = (\<lambda>c. (0, 0, elems (lc_out c), [])),
      tinystan_get_error_message =
        (\<lambda>e. if e = 9 then ''Error in JSON parsing'' else ''Exception: rejecting''),
      tinystan_get_error_type = (\<lambda>e. if e = 9 then 1 else 0),
      tinystan_separator_char = CHR 0x1C\<rparr>"

definition demo_env :: "unit env" where
  "demo_env =
     \<lparr>randint = 2024,
      validate_readable =
        (\<lambda>p. if p = ''missing.json'' then Some (Exn OSError ''missing.json'') else None),
      dump_stan_json = (\<lambda>_. ''{}''),
      create_inits = (\<lambda>out n seed. InitsOne (Str ''{}''))\<rparr>"

text \<open>The defaults of \<open>sample\<close>, except for two chains, no warmup, three draws and the seed 7.\<close>

definition demo_sample_args :: "unit sample_args" where
  "demo_sample_args =
     \<lparr>sa_data = Str [], sa_num_chains = 2, sa_inits = None, sa_seed = Some 7, sa_id = 1,
      sa_init_radius = 2, sa_num_warmup = 0, sa_num_samples = 3, sa_metric = DIAGONAL,
      sa_init_inv_metric = None, sa_save_metric = False, sa_adapt = True, sa_delta = 0.8,
      sa_gamma = 0.05, sa_kappa = 0.75, sa_t0 = 10, sa_init_buffer = 75,
      sa_term_buffer = 50, sa_window = 25, sa_save_warmup = False, sa_stepsize = 1,
      sa_stepsize_jitter = 0, sa_max_depth = 10, sa_refresh = 0, sa_num_threads = - 1\<rparr>"

definition demo_pathfinder_args :: "unit pathfinder_args" where
  "demo_pathfinder_args =
     \<lparr>pa_data = Str [], pa_num_paths = 4, pa_inits = None, pa_seed = Some 7, pa_id = 1,
      pa_init_radius = 2, pa_num_draws = 5, pa_max_history_size = 5, pa_init_alpha = 0.001,
      pa_tol_obj = 0, pa_tol_rel_obj = 10000, pa_tol_grad = 0, pa_tol_rel_grad = 10000000,
      pa_tol_param = 0, pa_num_iterations = 1000, pa_num_elbo_draws = 100,
      pa_num_multi_draws = 6, pa_calculate_lp = True, pa_psis_resample = True,
      pa_refresh = 0, pa_num_threads = - 1\<rparr>"

definition demo_optimize_args :: "unit optimize_args" where
  "demo_optimize_args =
     \<lparr>oa_data = Str [], oa_init = None, oa_seed = Some 7, oa_id = 1, oa_init_radius = 2,
      oa_algorithm = LBFGS, oa_jacobian = False, oa_num_iterations = 2000,
      oa_max_history_size = 5, oa_init_alpha = 0.001, oa_tol_obj = 0,
      oa_tol_rel_obj = 10000, oa_tol_grad = 0, oa_tol_rel_grad = 10000000,
      oa_tol_param = 0, oa_refresh = 0, oa_num_threads = - 1\<rparr>"

definition demo_laplace_args :: "unit laplace_args" where
  "demo_laplace_args =
     \<lparr>la_mode = ModeArray \<lparr>shape = [1], elems = [0.25]\<rparr>, la_data = Str [],
      la_num_draws = 3, la_jacobian = True, la_calculate_lp = True, la_save_hessian = False,
      la_seed = Some 7, la_refresh = 0, la_num_threads = - 1\<rparr>"

section \<open>Properties\<close>

subsection \<open>Unfolding a run\<close>

lemmas run_defs = ret_def raise_def native_call_def bind_def lift_def try_finally_def

lemmas eval_defs = sample_def sample_body_def pathfinder_def pathfinder_body_def
  optimize_def optimize_body_def laplace_sample_def laplace_body_def
  get_model_def raise_for_error_def get_parameter_names_def
  encode_inits_def encode_stan_json_def seed_or_rand_def rand_u32_def
  run_defs Let_def np_zeros_def np_size_def np_len_def np_repeat_newaxis_def StanOutput_def
  HMC_SAMPLER_VARIABLES_def PATHFINDER_VARIABLES_def OPTIMIZE_VARIABLES_def
  LAPLACE_VARIABLES_def strip_def isspace_def list_getitem_def exception_types_def
  str_int_def digit_char_def

lemmas demo_defs = demo_env_def demo_native_def demo_sample_args_def
  demo_pathfinder_args_def demo_optimize_args_def demo_laplace_args_def

lemma creates_append: "creates (t @ u) = creates t @ creates u"
  by (induction t rule: creates.induct) simp_all

lemma destroys_append: "destroys (t @ u) = destroys t @ destroys u"
  by (induction t rule: destroys.induct) simp_all

lemma sample_calls_append: "sample_calls (t @ u) = sample_calls t @ sample_calls u"
  by (induction t rule: sample_calls.induct) simp_all

lemma snd_bind_silent: "(\<And>x. snd (f x) = []) \<Longrightarrow> snd (bind m f) = snd m"
  by (auto simp add: bind_def split: prod.splits sum.splits) (metis snd_conv)

lemma snd_bind_lift: "snd (bind (lift r) f) = (case r of Inl e \<Rightarrow> [] | Inr x \<Rightarrow> snd (f x))"
  by (simp add: bind_def lift_def split: prod.splits sum.splits)

subsection \<open>The error bridge\<close>

text \<open>
  Claim C3. For every status code and error slot: a zero code makes
  \<open>_raise_for_error\<close> a no-op; a non-zero code with a non-null error handle reads the
  message, reads the category and frees the handle, each once and in this order, and
  raises \<open>RuntimeError\<close>, \<open>ValueError\<close> or \<open>KeyboardInterrupt\<close> for the category codes 0,
  1 and 2, three distinct types, with the message; a non-zero code with a null handle
  raises the unknown-error \<open>RuntimeError\<close> whose message ends with the code.
\<close>

theorem raise_for_error_cases:
  "(\<not> status_nonzero rc \<longrightarrow> raise_for_error N rc err = (Inr (), []))
   \<and> (status_nonzero rc \<and> err \<noteq> 0 \<longrightarrow>
        snd (raise_for_error N rc err) = [GetErrorMsg err, GetErrorType err, FreeError err]
        \<and> (tinystan_get_error_type N err = 0 \<longrightarrow>
             fst (raise_for_error N rc err)
               = Inl (Exn RuntimeError (tinystan_get_error_message N err)))
        \<and> (tinystan_get_error_type N err = 1 \<longrightarrow>
             fst (raise_for_error N rc err)
               = Inl (Exn ValueError (tinystan_get_error_message N err)))
        \<and> (tinystan_get_error_type N err = 2 \<longrightarrow>
             fst (raise_for_error N rc err)
               = Inl (Exn KeyboardInterrupt (tinystan_get_error_message N err))))
   \<and> (status_nonzero rc \<and> err = 0 \<longrightarrow>
        raise_for_error N rc err
          = (Inl (Exn RuntimeError
                   (''Unknown error, function returned code '' @ str_status rc)), []))
   \<and> distinct exception_types"
  by (auto simp add: raise_for_error_def run_defs list_getitem_def exception_types_def
      split: sum.splits)

theorem raise_for_error_cases_witness:
  "raise_for_error demo_native (PyInt 0) 8 = (Inr (), [])
   \<and> raise_for_error demo_native (PyInt 1) 8
       = (Inl (Exn RuntimeError ''Exception: rejecting''),
          [GetErrorMsg 8, GetErrorType 8, FreeError 8])
   \<and> raise_for_error demo_native (PyBool True) 9
       = (Inl (Exn ValueError ''Error in JSON parsing''),
          [GetErrorMsg 9, GetErrorType 9, FreeError 9])
   \<and> raise_for_error demo_native (PyInt (- 3)) 0
       = (Inl (Exn RuntimeError ''Unknown error, function returned code -3''), [])"
  using raise_for_error_cases [of "PyInt 0" demo_native 8]
    raise_for_error_cases [of "PyInt 1" demo_native 8]
    raise_for_error_cases [of "PyBool True" demo_native 9]
    raise_for_error_cases [of "PyInt (- 3)" demo_native 0]
  by (simp add: demo_native_def prod_eq_iff str_int_def digit_char_def)

subsection \<open>The session bracket\<close>

lemma quiet_ret: "quiet (ret x)"
  by (simp add: quiet_def ret_def)

lemma quiet_raise: "quiet (raise e)"
  by (simp add: quiet_def raise_def)

lemma quiet_lift: "quiet (lift r)"
  by (simp add: quiet_def lift_def)

lemma quiet_bind: "quiet m \<Longrightarrow> (\<And>x. quiet (f x)) \<Longrightarrow> quiet (bind m f)"
  by (auto simp add: quiet_def bind_def creates_append destroys_append
      split: prod.splits sum.splits)
    (metis snd_conv)+

lemma quiet_raise_for_error: "quiet (raise_for_error N rc err)"
  by (simp add: quiet_def raise_for_error_def run_defs split: sum.splits)

lemma quiet_get_parameter_names: "quiet (get_parameter_names N h)"
  by (simp add: quiet_def get_parameter_names_def run_defs Let_def)

lemma quiet_call:
  "\<not> (\<exists>d s. ev = CreateModel d s) \<Longrightarrow> \<not> (\<exists>h. ev = DestroyModel h) \<Longrightarrow>
   quiet (native_call ev r)"
  by (cases ev) (simp_all add: quiet_def native_call_def)

lemmas quiet_intros = quiet_bind quiet_ret quiet_raise quiet_lift quiet_raise_for_error
  quiet_get_parameter_names

lemma quiet_sample_body: "quiet (sample_body E N a seed h)"
  unfolding sample_body_def Let_def
  by (intro quiet_intros quiet_call allI impI | simp split: option.split prod.split
      | intro conjI impI allI)+

lemma quiet_pathfinder_body: "quiet (pathfinder_body E N a sz seed h)"
  unfolding pathfinder_body_def Let_def
  by (intro quiet_intros quiet_call allI impI | simp split: option.split prod.split
      | intro conjI impI allI)+

lemma quiet_optimize_body: "quiet (optimize_body E N a seed h)"
  unfolding optimize_body_def Let_def
  by (intro quiet_intros quiet_call allI impI | simp split: option.split prod.split
      | intro conjI impI allI)+

lemma quiet_laplace_body: "quiet (laplace_body E N a seed ma mj h)"
  unfolding laplace_body_def Let_def
  by (intro quiet_intros quiet_call allI impI | simp split: option.split prod.split
      | intro conjI impI allI)+

text \<open>
  What \<open>_get_model\<close> does around any block: nothing when the data cannot be encoded; the
  construction and the error bridge when the constructor returns NULL; otherwise the
  construction, the block, and the destruction.
\<close>

lemma get_model_trace:
  "snd (get_model E N d s body) =
     (case encode_stan_json E d of
        Inl e \<Rightarrow> []
      | Inr enc \<Rightarrow>
          (case tinystan_create_model N enc s of (h, err) \<Rightarrow>
             if h = 0 then CreateModel enc s # snd (raise_for_error N (PyBool True) err)
             else CreateModel enc s # snd (body h) @ [DestroyModel h]))"
  by (simp add: get_model_def run_defs raise_for_error_def split: sum.splits prod.splits)

lemma get_model_result:
  "fst (get_model E N d s body) =
     (case encode_stan_json E d of
        Inl e \<Rightarrow> Inl e
      | Inr enc \<Rightarrow>
          (case tinystan_create_model N enc s of (h, err) \<Rightarrow>
             if h = 0 then
               (case fst (raise_for_error N (PyBool True) err) of
                  Inl e \<Rightarrow> Inl e | Inr u \<Rightarrow> fst (body 0))
             else fst (body h)))"
  by (simp add: get_model_def run_defs raise_for_error_def split: sum.splits prod.splits)

lemma raise_for_error_True_raises: "\<exists>e. fst (raise_for_error N (PyBool True) err) = Inl e"
  by (simp add: raise_for_error_def run_defs list_getitem_def split: sum.splits)

lemma strict_bracket_get_model:
  assumes "\<And>h. quiet (body h)"
  shows "strict_bracket N (snd (get_model E N d s body))"
proof (cases "encode_stan_json E d")
  case (Inl e)
  then show ?thesis by (simp add: get_model_trace strict_bracket_def)
next
  case (Inr enc)
  obtain h err where c: "tinystan_create_model N enc s = (h, err)"
    by (cases "tinystan_create_model N enc s")
  have q: "creates (snd (body h)) = []" "destroys (snd (body h)) = []"
    using assms [of h] by (simp_all add: quiet_def)
  have r: "creates (snd (raise_for_error N (PyBool True) err)) = []"
    "destroys (snd (raise_for_error N (PyBool True) err)) = []"
    using quiet_raise_for_error [of N "PyBool True" err] by (simp_all add: quiet_def)
  show ?thesis
    using Inr c q r
    by (simp add: get_model_trace strict_bracket_def creates_append destroys_append)
qed

lemma strict_bracket_Nil: "strict_bracket N []"
  by (simp add: strict_bracket_def)

lemma strict_bracket_sample: "strict_bracket N (snd (sample E N a))"
  by (simp add: sample_def Let_def raise_def strict_bracket_Nil snd_bind_silent ret_def
      strict_bracket_get_model quiet_sample_body split: prod.splits)

lemma strict_bracket_pathfinder: "strict_bracket N (snd (pathfinder E N a))"
  by (simp add: pathfinder_def Let_def raise_def strict_bracket_Nil snd_bind_silent ret_def
      strict_bracket_get_model quiet_pathfinder_body split: prod.splits)

lemma strict_bracket_optimize: "strict_bracket N (snd (optimize E N a))"
  by (simp add: optimize_def Let_def raise_def strict_bracket_Nil snd_bind_silent ret_def
      strict_bracket_get_model quiet_optimize_body split: prod.splits)

lemma strict_bracket_laplace: "strict_bracket N (snd (laplace_sample E N a))"
  by (simp add: laplace_sample_def Let_def raise_def strict_bracket_Nil snd_bind_silent
      ret_def snd_bind_lift strict_bracket_get_model quiet_laplace_body
      split: prod.splits sum.splits)

text \<open>
  Claim C2. In each of the four invokers, however the call ends, the trace of native
  calls is a strict bracket: a constructor call that returned a handle is the first
  event, the destructor is called exactly once, on that handle, and that call is the last
  event of the trace, so the handle is not used after it; a constructor call that
  returned NULL is followed by no destructor call; and without a constructor call there
  is no destructor call.
\<close>

theorem session_bracket:
  "strict_bracket N (snd (sample E N sa))
   \<and> strict_bracket N (snd (pathfinder E N pa))
   \<and> strict_bracket N (snd (optimize E N oa))
   \<and> strict_bracket N (snd (laplace_sample E N la))"
  by (simp add: strict_bracket_sample strict_bracket_pathfinder strict_bracket_optimize
      strict_bracket_laplace)

text \<open>
  The four exits on the example library: a normal return, a native sampling error, a
  validation failure under the \<open>with\<close>, and a construction that returns NULL.
\<close>

theorem session_bracket_witness:
  "(let t = snd (optimize demo_env demo_native demo_optimize_args) in
      creates t = [([], 7)] \<and> destroys t = [1] \<and> last t = DestroyModel 1)
   \<and> (let t = snd (sample demo_env demo_native (demo_sample_args\<lparr>sa_data := Str ''throws''\<rparr>)) in
      creates t = [(''throws'', 7)] \<and> destroys t = [4] \<and> last t = DestroyModel 4)
   \<and> (let t = snd (pathfinder demo_env demo_native
                     (demo_pathfinder_args\<lparr>pa_data := Str ''empty''\<rparr>)) in
      creates t = [(''empty'', 7)] \<and> destroys t = [3] \<and> last t = DestroyModel 3)
   \<and> (let t = snd (laplace_sample demo_env demo_native
                     (demo_laplace_args\<lparr>la_data := Str ''bad''\<rparr>)) in
      creates t = [(''bad'', 7)] \<and> destroys t = [])"
  using session_bracket [of demo_native demo_env
      "demo_sample_args\<lparr>sa_data := Str ''throws''\<rparr>"
      "demo_pathfinder_args\<lparr>pa_data := Str ''empty''\<rparr>"
      demo_optimize_args
      "demo_laplace_args\<lparr>la_data := Str ''bad''\<rparr>"]
  by (simp add: strict_bracket_def eval_defs demo_defs)

subsection \<open>Size checks before the session\<close>

text \<open>
  Claim C6. When \<open>num_chains\<close> is below 1 (in particular 0), \<open>sample\<close> raises the
  \<open>ValueError\<close> "num_chains must be at least 1" and its trace of native calls is empty:
  no model is constructed, so no handle exists that could leak.
\<close>

theorem sample_rejects_num_chains:
  "sa_num_chains a < 1 \<Longrightarrow>
   sample E N a = (Inl (Exn ValueError ''num_chains must be at least 1''), [])"
  by (simp add: sample_def raise_def)

theorem sample_rejects_num_chains_witness:
  "sa_num_chains (demo_sample_args\<lparr>sa_num_chains := 0\<rparr>) < 1
   \<and> sample demo_env demo_native (demo_sample_args\<lparr>sa_num_chains := 0\<rparr>)
       = (Inl (Exn ValueError ''num_chains must be at least 1''), [])"
  using sample_rejects_num_chains [of "demo_sample_args\<lparr>sa_num_chains := 0\<rparr>"
      demo_env demo_native]
  by (simp add: demo_sample_args_def)

subsection \<open>Pathfinder on a model without parameters\<close>

lemma get_model_ok:
  "encode_stan_json E d = Inr enc \<Longrightarrow> tinystan_create_model N enc s = (h, err) \<Longrightarrow> h \<noteq> 0 \<Longrightarrow>
   get_model E N d s body = (fst (body h), CreateModel enc s # snd (body h) @ [DestroyModel h])"
  by (simp add: get_model_def run_defs raise_for_error_def split: sum.splits prod.splits)

text \<open>
  Claim C10. When the three size checks of \<open>pathfinder\<close> pass and the model is
  constructed, a model that reports zero free parameters makes \<open>pathfinder\<close> raise the
  \<open>ValueError\<close> "Model has no parameters.": the native calls are the construction, the
  query of the number of free parameters and the destruction of the session; the native
  pathfinder entry point is not called.
\<close>

theorem pathfinder_no_parameters:
  assumes "1 \<le> pa_num_draws a" and "1 \<le> pa_num_paths a" and "1 \<le> pa_num_multi_draws a"
    and "encode_stan_json E (pa_data a) = Inr enc"
    and "tinystan_create_model N enc (seed_or_rand E (pa_seed a)) = (h, err)"
    and "h \<noteq> 0"
    and "tinystan_model_num_free_params N h = 0"
  shows "pathfinder E N a =
           (Inl (Exn ValueError ''Model has no parameters.''),
            [CreateModel enc (seed_or_rand E (pa_seed a)), NumFreeParams h, DestroyModel h])"
  using assms
  by (simp add: pathfinder_def Let_def get_model_ok pathfinder_body_def run_defs)

theorem pathfinder_no_parameters_witness:
  "pathfinder demo_env demo_native (demo_pathfinder_args\<lparr>pa_data := Str ''empty''\<rparr>) =
           (Inl (Exn ValueError ''Model has no parameters.''),
            [CreateModel ''empty'' 7, NumFreeParams 3, DestroyModel 3])"
  using pathfinder_no_parameters [of "demo_pathfinder_args\<lparr>pa_data := Str ''empty''\<rparr>"
      demo_env "''empty''" demo_native 3 0]
  by (simp add: demo_defs encode_stan_json_def seed_or_rand_def)

subsection \<open>Splitting and joining\<close>

lemma py_split_not_Nil: "py_split c s \<noteq> []"
  by (induction s) (auto split: list.splits)

lemma join_py_split: "join [c] (py_split c s) = s"
proof (induction s)
  case Nil
  then show ?case by simp
next
  case (Cons x xs)
  obtain w ws where p: "py_split c xs = w # ws"
    using py_split_not_Nil [of c xs] by (cases "py_split c xs") auto
  show ?case
  proof (cases "x = c")
    case True
    with Cons p show ?thesis by simp
  next
    case False
    with Cons p show ?thesis by (cases ws) auto
  qed
qed

lemma py_split_no_sep: "w \<in> set (py_split c s) \<Longrightarrow> c \<notin> set w"
  by (induction s arbitrary: w) (auto split: if_splits list.splits)

lemma py_split_single_empty: "py_split c s = [[]] \<longleftrightarrow> s = []"
  by (cases s) (auto split: list.splits simp: py_split_not_Nil)

lemma py_split_whole: "c \<notin> set x \<Longrightarrow> py_split c x = [x]"
  by (induction x) auto

lemma py_split_first: "c \<notin> set x \<Longrightarrow> py_split c (x @ c # rest) = x # py_split c rest"
  by (induction x) auto

lemma py_split_join:
  "xs \<noteq> [] \<Longrightarrow> \<forall>w \<in> set xs. c \<notin> set w \<Longrightarrow> py_split c (join [c] xs) = xs"
proof (induction xs)
  case Nil
  then show ?case by simp
next
  case (Cons x xs)
  have cx: "c \<notin> set x" using Cons.prems by simp
  show ?case
  proof (cases xs)
    case Nil
    then show ?thesis using cx by (simp add: py_split_whole)
  next
    case tl: (Cons y ys)
    have ih: "py_split c (join [c] (y # ys)) = y # ys"
      using Cons.IH Cons.prems tl by simp
    have "join [c] (x # y # ys) = x @ c # join [c] (y # ys)" by simp
    then have "py_split c (join [c] (x # y # ys)) = x # y # ys"
      using py_split_first [OF cx, of "join [c] (y # ys)"] ih by (simp only:)
    then show ?thesis using tl by (simp only:)
  qed
qed

subsection \<open>Parameter names\<close>

lemma strip_Nil: "strip [] = []"
  by (simp add: strip_def)

lemma get_parameter_names_eq:
  "get_parameter_names N h =
     (Inr (if strip (tinystan_model_param_names N h) = [] then []
           else py_split CHR '','' (strip (tinystan_model_param_names N h))),
      [ParamNames h])"
  by (simp add: get_parameter_names_def run_defs Let_def)

text \<open>
  Claim C8, as amended. \<open>_get_parameter_names\<close> strips the surrounding whitespace of the
  native string first. It yields the empty sequence exactly when the stripped string is
  empty (so also for an empty native string), never the sequence of one empty name, and
  otherwise the comma-split of the stripped string: names without a comma which, joined
  by commas in their order, give back the stripped string.
\<close>

theorem get_parameter_names_stripped:
  "\<exists>names. get_parameter_names N h = (Inr names, [ParamNames h])
     \<and> (names = [] \<longleftrightarrow> strip (tinystan_model_param_names N h) = [])
     \<and> names \<noteq> [[]]
     \<and> join '','' names = strip (tinystan_model_param_names N h)
     \<and> (\<forall>n \<in> set names. CHR '','' \<notin> set n)
     \<and> (strip (tinystan_model_param_names N h) \<noteq> [] \<longrightarrow>
          names = py_split CHR '','' (strip (tinystan_model_param_names N h)))
     \<and> (tinystan_model_param_names N h = [] \<longrightarrow> names = [])"
proof (cases "strip (tinystan_model_param_names N h) = []")
  case True
  then show ?thesis by (simp add: get_parameter_names_eq)
next
  case False
  then have "tinystan_model_param_names N h \<noteq> []" using strip_Nil by auto
  with False show ?thesis
    by (simp add: get_parameter_names_eq py_split_not_Nil join_py_split
        py_split_single_empty py_split_no_sep)
qed


theorem get_parameter_names_stripped_witness:
  "get_parameter_names demo_native 2 = (Inr [''theta.1'', ''theta.2'', ''theta.3''], [ParamNames 2])
   \<and> get_parameter_names demo_native 3 = (Inr [], [ParamNames 3])"
  using get_parameter_names_stripped [of demo_native 2]
    get_parameter_names_stripped [of demo_native 3]
  by (simp add: get_parameter_names_eq demo_native_def strip_def isspace_def)

text \<open>
  The claim as stated fails where the native string has surrounding whitespace: the
  names are those of the stripped string, not the comma-split of the string itself.
\<close>

theorem get_parameter_names_counterexample:
  "get_parameter_names (demo_native\<lparr>tinystan_model_param_names := \<lambda>h. '' a,b''\<rparr>) 1
     = (Inr [''a'', ''b''], [ParamNames 1])
   \<and> py_split CHR '','' '' a,b'' = ['' a'', ''b'']"
  by (simp add: get_parameter_names_eq strip_def isspace_def)

subsection \<open>Encoding initial values\<close>

lemma encode_each_length: "encode_each E xs = Inr segs \<Longrightarrow> length segs = length xs"
  by (induction xs arbitrary: segs) (auto split: sum.splits)

lemma encode_each_nth:
  "encode_each E xs = Inr segs \<Longrightarrow> i < length xs \<Longrightarrow> encode_stan_json E (xs ! i) = Inr (segs ! i)"
proof (induction xs arbitrary: segs i)
  case Nil
  then show ?case by simp
next
  case (Cons x xs)
  then show ?case by (cases i) (auto split: sum.splits)
qed

text \<open>
  Claim C7, as amended. A null \<open>inits\<close> encodes to null. For a list of \<open>k\<close> values
  that all serialise, whatever the chain count, the payload is the \<open>k\<close> serialised
  segments, each the encoding of its own element, joined by the separator of the
  library; splitting the payload on the separator gives the \<open>k\<close> segments back when
  \<open>k\<close> is at least 1 and no segment contains the separator.
\<close>

theorem encode_inits_sequence:
  "encode_inits E N None nchains seed = Inr None
   \<and> (encode_each E xs = Inr segs \<longrightarrow>
        encode_inits E N (Some (Inits (InitsList xs))) nchains seed
          = Inr (Some (join [tinystan_separator_char N] segs))
        \<and> length segs = length xs
        \<and> (\<forall>i < length xs. encode_stan_json E (xs ! i) = Inr (segs ! i))
        \<and> (xs \<noteq> [] \<and> (\<forall>s \<in> set segs. tinystan_separator_char N \<notin> set s) \<longrightarrow>
             py_split (tinystan_separator_char N) (join [tinystan_separator_char N] segs) = segs))"
proof -
  have a: "encode_inits E N None nchains seed = Inr None"
    by (simp add: encode_inits_def)
  have b: "encode_inits E N (Some (Inits (InitsList xs))) nchains seed
          = Inr (Some (join [tinystan_separator_char N] segs))" if "encode_each E xs = Inr segs"
    using that by (simp add: encode_inits_def)
  have c: "py_split (tinystan_separator_char N) (join [tinystan_separator_char N] segs) = segs"
    if "encode_each E xs = Inr segs" "xs \<noteq> []" "\<forall>s \<in> set segs. tinystan_separator_char N \<notin> set s"
  proof -
    have "segs \<noteq> []" using encode_each_length [OF that(1)] that(2) by auto
    then show ?thesis using that(3) by (rule py_split_join)
  qed
  show ?thesis using a b c encode_each_length encode_each_nth by blast
qed

theorem encode_inits_sequence_witness:
  "encode_inits demo_env demo_native (Some (Inits (InitsList [Str ''{\"a\":1}'', Dict (), PathLike ''b.json''])))
      4 7 = Inr (Some (''{\"a\":1}'' @ [CHR 0x1C] @ ''{}'' @ [CHR 0x1C] @ ''b.json''))
   \<and> py_split CHR 0x1C (''{\"a\":1}'' @ [CHR 0x1C] @ ''{}'' @ [CHR 0x1C] @ ''b.json'')
       = [''{\"a\":1}'', ''{}'', ''b.json'']"
  using encode_inits_sequence [of demo_env demo_native 4 7
      "[Str ''{\"a\":1}'', Dict (), PathLike ''b.json'']" "[''{\"a\":1}'', ''{}'', ''b.json'']"]
  by (simp add: demo_env_def demo_native_def encode_stan_json_def)

text \<open>
  The claim as stated fails for the empty list, whose payload is empty and splits into
  one segment, not zero; and for a list of one string that contains the separator, whose
  payload splits into two segments.
\<close>

theorem encode_inits_counterexample:
  "encode_inits demo_env demo_native (Some (Inits (InitsList []))) 4 7 = Inr (Some [])
   \<and> length (py_split (tinystan_separator_char demo_native) []) = 1
   \<and> encode_inits demo_env demo_native (Some (Inits (InitsList [Str [CHR ''a'', CHR 0x1C, CHR ''b'']]))) 4 7
       = Inr (Some [CHR ''a'', CHR 0x1C, CHR ''b''])
   \<and> py_split (tinystan_separator_char demo_native) [CHR ''a'', CHR 0x1C, CHR ''b''] = [''a'', ''b'']"
  by (simp add: encode_inits_def encode_stan_json_def demo_env_def demo_native_def)

subsection \<open>The mode of \<open>laplace_sample\<close>\<close>

text \<open>
  Claim C4, as amended. For a numeric mode whose length differs from the number of
  parameter names minus the two fixed names, \<open>laplace_sample\<close> (with \<open>num_draws\<close> at
  least 1 and a model that is constructed) raises the size-mismatch \<open>ValueError\<close>
  before the native Laplace call. The check needs the names of the model, so the native
  constructor and the native query of the names have been called by then, and the
  destructor is called on the way out: these three are the whole trace.
\<close>

theorem laplace_mode_length_mismatch:
  assumes "1 \<le> la_num_draws a"
    and "la_mode a = ModeArray m"
    and "np_len m = Inr n"
    and "encode_stan_json E (la_data a) = Inr enc"
    and "tinystan_create_model N enc (seed_or_rand E (la_seed a)) = (h, err)"
    and "h \<noteq> 0"
    and "get_parameter_names N h = (Inr names, tn)"
    and "n \<noteq> int (length (LAPLACE_VARIABLES @ names)) - 2"
  shows "laplace_sample E N a =
           (Inl (Exn ValueError (''Mode array has incorrect length. Expected ''
                                 @ str_int (int (length names)) @ '' but got '' @ str_int n)),
            [CreateModel enc (seed_or_rand E (la_seed a)), ParamNames h, DestroyModel h])"
proof -
  have tn: "tn = [ParamNames h]"
    using assms(7) by (simp add: get_parameter_names_eq)
  have body: "laplace_body E N a (seed_or_rand E (la_seed a)) (Some m) None h =
      (Inl (Exn ValueError (''Mode array has incorrect length. Expected ''
                                 @ str_int (int (length names)) @ '' but got '' @ str_int n)),
       [ParamNames h])"
    using assms(3,7,8) tn
    by (simp add: laplace_body_def run_defs Let_def LAPLACE_VARIABLES_def)
  show ?thesis
    using assms(1,2,4,5,6) body
    by (simp add: laplace_sample_def Let_def get_model_ok run_defs)
qed

theorem laplace_mode_length_mismatch_witness:
  "laplace_sample demo_env demo_native (demo_laplace_args\<lparr>la_data := Str ''simplex''\<rparr>) =
     (Inl (Exn ValueError ''Mode array has incorrect length. Expected 3 but got 1''),
      [CreateModel ''simplex'' 7, ParamNames 2, DestroyModel 2])"
  using laplace_mode_length_mismatch [of "demo_laplace_args\<lparr>la_data := Str ''simplex''\<rparr>"
      "\<lparr>shape = [1], elems = [0.25]\<rparr>" 1 demo_env "''simplex''" demo_native 2 0
      "[''theta.1'', ''theta.2'', ''theta.3'']" "[ParamNames 2]"]
  by (simp add: demo_defs encode_stan_json_def seed_or_rand_def np_len_def
      get_parameter_names_eq strip_def isspace_def LAPLACE_VARIABLES_def str_int_def digit_char_def)

text \<open>
  The claim as stated fails: the error is raised after native calls have been made, the
  construction of the model and the query of its parameter names.
\<close>

theorem laplace_native_calls_counterexample:
  "laplace_sample demo_env demo_native
     (demo_laplace_args\<lparr>la_mode := ModeArray \<lparr>shape = [2], elems = [0.25, 0.75]\<rparr>\<rparr>) =
     (Inl (Exn ValueError ''Mode array has incorrect length. Expected 1 but got 2''),
      [CreateModel [] 7, ParamNames 1, DestroyModel 1])"
  by (simp add: eval_defs demo_defs)

subsection \<open>The initial inverse metric of \<open>sample\<close>\<close>

lemma bind_Inr: "bind (Inr x, t) f = (fst (f x), t @ snd (f x))"
  by (simp add: bind_def split: prod.splits)

lemma bind_Inl: "bind (Inl e, t) f = (Inl e, t)"
  by (simp add: bind_def)

lemma snd_bind_const: "snd (bind m (\<lambda>_. (r, []))) = snd m"
  by (simp add: bind_def split: prod.splits sum.splits)

lemma fst_bind_const:
  "fst (bind m (\<lambda>_. (Inr y, []))) = (case fst m of Inl e \<Rightarrow> Inl e | Inr u \<Rightarrow> Inr y)"
  by (simp add: bind_def split: prod.splits sum.splits)

lemmas run_simps = ret_def raise_def native_call_def lift_def bind_Inr bind_Inl
  snd_bind_const fst_bind_const case_prod_beta

lemma sample_calls_raise_for_error: "sample_calls (snd (raise_for_error N rc err)) = []"
  by (simp add: raise_for_error_def run_defs split: sum.splits)

lemma sample_body_calls:
  assumes "tinystan_model_num_free_params N h \<noteq> 0"
    and "encode_inits E N (sa_inits a) (sa_num_chains a) seed = Inr ie"
  shows "map sc_init_inv_metric (sample_calls (snd (sample_body E N a seed h))) =
     (let metric_size = (if sa_metric a = DENSE
                         then [int (tinystan_model_num_free_params N h),
                               int (tinystan_model_num_free_params N h)]
                         else [int (tinystan_model_num_free_params N h)]) in
      case sa_init_inv_metric a of
        None \<Rightarrow> [None]
      | Some m \<Rightarrow>
          if shape m = metric_size then [Some (np_repeat_newaxis m (sa_num_chains a))]
          else if shape m = sa_num_chains a # metric_size then [Some m]
          else [])"
  using assms
  by (simp add: sample_body_def get_parameter_names_eq run_simps Let_def
      sample_calls_raise_for_error split: option.split)


lemma sample_valid:
  assumes "1 \<le> sa_num_chains a" and "0 \<le> sa_num_warmup a" and "1 \<le> sa_num_samples a"
    and "encode_stan_json E (sa_data a) = Inr enc"
    and "tinystan_create_model N enc (seed_or_rand E (sa_seed a)) = (h, err)"
    and "h \<noteq> 0"
  shows "snd (sample E N a) =
     CreateModel enc (seed_or_rand E (sa_seed a))
       # snd (sample_body E N a (seed_or_rand E (sa_seed a)) h) @ [DestroyModel h]"
    and "fst (sample E N a) =
       (case fst (sample_body E N a (seed_or_rand E (sa_seed a)) h) of
          Inl e \<Rightarrow> Inl e
        | Inr (param_names, out, metric_out) \<Rightarrow>
            Inr (if sa_save_metric a then (StanOutput param_names out)\<lparr>metric := metric_out\<rparr>
                 else StanOutput param_names out))"
proof -
  let ?b = "sample_body E N a (seed_or_rand E (sa_seed a)) h"
  obtain r t where b: "?b = (r, t)" by (cases ?b)
  have g: "get_model E N (sa_data a) (seed_or_rand E (sa_seed a))
             (sample_body E N a (seed_or_rand E (sa_seed a)))
           = (r, CreateModel enc (seed_or_rand E (sa_seed a)) # t @ [DestroyModel h])"
    using assms(4,5,6) b by (simp add: get_model_ok)
  show "snd (sample E N a) =
     CreateModel enc (seed_or_rand E (sa_seed a)) # snd ?b @ [DestroyModel h]"
    using assms(1,2,3) g b
    by (cases r) (simp_all add: sample_def Let_def run_simps)
  show "fst (sample E N a) =
       (case fst ?b of
          Inl e \<Rightarrow> Inl e
        | Inr (param_names, out, metric_out) \<Rightarrow>
            Inr (if sa_save_metric a then (StanOutput param_names out)\<lparr>metric := metric_out\<rparr>
                 else StanOutput param_names out))"
    using assms(1,2,3) g b
    by (cases r) (simp_all add: sample_def Let_def run_simps)
qed

lemma sample_body_bad_metric:
  assumes "tinystan_model_num_free_params N h \<noteq> 0"
    and "sa_init_inv_metric a = Some m"
    and "metric_size = (if sa_metric a = DENSE
                        then [int (tinystan_model_num_free_params N h),
                              int (tinystan_model_num_free_params N h)]
                        else [int (tinystan_model_num_free_params N h)])"
    and "shape m \<noteq> metric_size" and "shape m \<noteq> sa_num_chains a # metric_size"
  shows "sample_body E N a seed h =
           (Inl (Exn ValueError
                  (''Invalid initial metric size. Expected a '' @ repr_tuple metric_size
                   @ '' or '' @ repr_tuple (sa_num_chains a # metric_size) @ '' matrix.'')),
            [NumFreeParams h, ParamNames h])"
  using assms
  by (simp add: sample_body_def get_parameter_names_eq run_simps Let_def)

lemma sample_body_result:
  assumes "fst (sample_body E N a seed h) = Inr (pn, out, mo)"
    and "names = (if strip (tinystan_model_param_names N h) = [] then []
                  else py_split CHR '','' (strip (tinystan_model_param_names N h)))"
  shows "pn = HMC_SAMPLER_VARIABLES @ names
     \<and> shape out = [sa_num_chains a,
                     sa_num_samples a + sa_num_warmup a * of_bool (sa_save_warmup a),
                     int (length (HMC_SAMPLER_VARIABLES @ names))]
     \<and> tinystan_model_num_free_params N h \<noteq> 0"
proof -
  have p: "tinystan_model_num_free_params N h \<noteq> 0"
    using assms(1) by (simp add: sample_body_def run_simps split: if_splits)
  show ?thesis
  proof (cases "encode_inits E N (sa_inits a) (sa_num_chains a) seed")
    case (Inl e)
    with assms(1) p show ?thesis
      by (simp add: sample_body_def get_parameter_names_eq run_simps Let_def
          split: option.splits if_splits)
  next
    case (Inr ie)
    with assms p show ?thesis
      by (auto simp add: sample_body_def get_parameter_names_eq run_simps Let_def np_zeros_def
          split: option.splits if_splits sum.splits)
  qed
qed


text \<open>
  Claim C5. In a call of \<open>sample\<close> that passes the size checks, constructs its model,
  finds \<open>P > 0\<close> free parameters and encodes its initial values, the native sampling
  call is made once and receives: NULL for a null \<open>init_inv_metric\<close>; for one of the
  shape of a single chain (\<open>(P, P)\<close> for the dense metric, \<open>(P,)\<close> otherwise) its
  \<open>num_chains\<close>-fold repetition, of shape \<open>(num_chains, ...)\<close>; one of shape
  \<open>(num_chains, ...)\<close> unchanged. Any other shape raises the \<open>ValueError\<close> and the
  native sampling call is not made: the trace is the construction, the two queries and
  the destruction.
\<close>

theorem sample_init_inv_metric:
  assumes "1 \<le> sa_num_chains a" and "0 \<le> sa_num_warmup a" and "1 \<le> sa_num_samples a"
    and "seed = seed_or_rand E (sa_seed a)"
    and "encode_stan_json E (sa_data a) = Inr enc"
    and "tinystan_create_model N enc seed = (h, err)" and "h \<noteq> 0"
    and "P = int (tinystan_model_num_free_params N h)" and "P \<noteq> 0"
    and "metric_size = (if sa_metric a = DENSE then [P, P] else [P])"
    and "encode_inits E N (sa_inits a) (sa_num_chains a) seed = Inr ie"
  shows "(sa_init_inv_metric a = None \<longrightarrow>
            map sc_init_inv_metric (sample_calls (snd (sample E N a))) = [None])
     \<and> (\<forall>m. sa_init_inv_metric a = Some m \<and> shape m = metric_size \<longrightarrow>
            map sc_init_inv_metric (sample_calls (snd (sample E N a)))
              = [Some \<lparr>shape = sa_num_chains a # metric_size,
                       elems = concat (replicate (nat (sa_num_chains a)) (elems m))\<rparr>])
     \<and> (\<forall>m. sa_init_inv_metric a = Some m \<and> shape m = sa_num_chains a # metric_size \<longrightarrow>
            map sc_init_inv_metric (sample_calls (snd (sample E N a))) = [Some m])
     \<and> (\<forall>m. sa_init_inv_metric a = Some m \<and> shape m \<noteq> metric_size
              \<and> shape m \<noteq> sa_num_chains a # metric_size \<longrightarrow>
            sample E N a =
              (Inl (Exn ValueError
                     (''Invalid initial metric size. Expected a '' @ repr_tuple metric_size
                      @ '' or '' @ repr_tuple (sa_num_chains a # metric_size) @ '' matrix.'')),
               [CreateModel enc seed, NumFreeParams h, ParamNames h, DestroyModel h]))"
proof -
  have p: "tinystan_model_num_free_params N h \<noteq> 0" using assms(8,9) by simp
  have tr: "snd (sample E N a) =
      CreateModel enc seed # snd (sample_body E N a seed h) @ [DestroyModel h]"
    using sample_valid(1) [of a E enc N h err] assms(1-7) by simp
  have res: "fst (sample E N a) =
       (case fst (sample_body E N a seed h) of
          Inl e \<Rightarrow> Inl e
        | Inr (param_names, out, metric_out) \<Rightarrow>
            Inr (if sa_save_metric a then (StanOutput param_names out)\<lparr>metric := metric_out\<rparr>
                 else StanOutput param_names out))"
    using sample_valid(2) [of a E enc N h err] assms(1-7) by simp
  have calls: "map sc_init_inv_metric (sample_calls (snd (sample E N a)))
      = map sc_init_inv_metric (sample_calls (snd (sample_body E N a seed h)))"
    by (simp add: tr sample_calls_append)
  have c1: "sa_init_inv_metric a = None \<longrightarrow>
            map sc_init_inv_metric (sample_calls (snd (sample E N a))) = [None]"
    using sample_body_calls [OF p assms(11)] calls by simp
  have c2: "\<forall>m. sa_init_inv_metric a = Some m \<and> shape m = metric_size \<longrightarrow>
            map sc_init_inv_metric (sample_calls (snd (sample E N a)))
              = [Some \<lparr>shape = sa_num_chains a # metric_size,
                       elems = concat (replicate (nat (sa_num_chains a)) (elems m))\<rparr>]"
    using sample_body_calls [OF p assms(11)] calls assms(8,10)
    by (simp add: Let_def np_repeat_newaxis_def)
  have ne: "xs \<noteq> c # xs" for xs :: "int list" and c by simp
  have c3: "\<forall>m. sa_init_inv_metric a = Some m \<and> shape m = sa_num_chains a # metric_size \<longrightarrow>
            map sc_init_inv_metric (sample_calls (snd (sample E N a))) = [Some m]"
    using sample_body_calls [OF p assms(11)] calls assms(8,10)
    by (auto simp add: Let_def)
  have c4: "\<forall>m. sa_init_inv_metric a = Some m \<and> shape m \<noteq> metric_size
              \<and> shape m \<noteq> sa_num_chains a # metric_size \<longrightarrow>
            sample E N a =
              (Inl (Exn ValueError
                     (''Invalid initial metric size. Expected a '' @ repr_tuple metric_size
                      @ '' or '' @ repr_tuple (sa_num_chains a # metric_size) @ '' matrix.'')),
               [CreateModel enc seed, NumFreeParams h, ParamNames h, DestroyModel h])"
  proof (intro allI impI)
    fix m
    assume m: "sa_init_inv_metric a = Some m \<and> shape m \<noteq> metric_size
              \<and> shape m \<noteq> sa_num_chains a # metric_size"
    have ms: "metric_size = (if sa_metric a = DENSE
                        then [int (tinystan_model_num_free_params N h),
                              int (tinystan_model_num_free_params N h)]
                        else [int (tinystan_model_num_free_params N h)])"
      using assms(8,10) by simp
    have b: "sample_body E N a seed h =
           (Inl (Exn ValueError
                  (''Invalid initial metric size. Expected a '' @ repr_tuple metric_size
                   @ '' or '' @ repr_tuple (sa_num_chains a # metric_size) @ '' matrix.'')),
            [NumFreeParams h, ParamNames h])"
      using sample_body_bad_metric [where N = N and h = h and a = a and m = m
          and metric_size = metric_size and E = E and seed = seed] p ms m
      by simp
    show "sample E N a =
              (Inl (Exn ValueError
                     (''Invalid initial metric size. Expected a '' @ repr_tuple metric_size
                      @ '' or '' @ repr_tuple (sa_num_chains a # metric_size) @ '' matrix.'')),
               [CreateModel enc seed, NumFreeParams h, ParamNames h, DestroyModel h])"
      using tr res b by (simp add: prod_eq_iff)
  qed
  show ?thesis using c1 c2 c3 c4 by blast
qed

theorem sample_init_inv_metric_witness:
  "map sc_init_inv_metric (sample_calls (snd (sample demo_env demo_native
       (demo_sample_args\<lparr>sa_data := Str ''simplex'', sa_metric := DENSE,
          sa_init_inv_metric := None\<rparr>)))) = [None]
   \<and> map sc_init_inv_metric (sample_calls (snd (sample demo_env demo_native
       (demo_sample_args\<lparr>sa_data := Str ''simplex'', sa_metric := DENSE,
          sa_init_inv_metric := Some \<lparr>shape = [2, 2], elems = [1, 0, 0, 1]\<rparr>\<rparr>))))
       = [Some \<lparr>shape = [2, 2, 2], elems = [1, 0, 0, 1, 1, 0, 0, 1]\<rparr>]
   \<and> map sc_init_inv_metric (sample_calls (snd (sample demo_env demo_native
       (demo_sample_args\<lparr>sa_data := Str ''simplex'', sa_metric := DENSE,
          sa_init_inv_metric := Some \<lparr>shape = [2, 2, 2], elems = [1, 0, 0, 1, 2, 0, 0, 2]\<rparr>\<rparr>))))
       = [Some \<lparr>shape = [2, 2, 2], elems = [1, 0, 0, 1, 2, 0, 0, 2]\<rparr>]
   \<and> sample demo_env demo_native
       (demo_sample_args\<lparr>sa_data := Str ''simplex'', sa_metric := DENSE,
          sa_init_inv_metric := Some \<lparr>shape = [3], elems = [1, 1, 1]\<rparr>\<rparr>)
       = (Inl (Exn ValueError
               ''Invalid initial metric size. Expected a (2, 2) or (2, 2, 2) matrix.''),
          [CreateModel ''simplex'' 7, NumFreeParams 2, ParamNames 2, DestroyModel 2])"
proof -
  let ?a = "\<lambda>m. demo_sample_args\<lparr>sa_data := Str ''simplex'', sa_metric := DENSE,
          sa_init_inv_metric := m\<rparr>"
  note T = sample_init_inv_metric [of "?a m" 7 demo_env "''simplex''" demo_native 2 0 2
      "[2, 2]" None for m]
  have hyps: "1 \<le> sa_num_chains (?a m)" "0 \<le> sa_num_warmup (?a m)"
    "1 \<le> sa_num_samples (?a m)" "7 = seed_or_rand demo_env (sa_seed (?a m))"
    "encode_stan_json demo_env (sa_data (?a m)) = Inr ''simplex''"
    "tinystan_create_model demo_native ''simplex'' 7 = (2, 0)" "(2::nat) \<noteq> 0"
    "(2::int) = int (tinystan_model_num_free_params demo_native 2)" "(2::int) \<noteq> 0"
    "[2, 2] = (if sa_metric (?a m) = DENSE then [2, 2] else [2::int])"
    "encode_inits demo_env demo_native (sa_inits (?a m)) (sa_num_chains (?a m)) 7 = Inr None"
    for m
    by (simp_all add: demo_defs encode_stan_json_def seed_or_rand_def encode_inits_def)
  note R = T [OF hyps]
  have r1: "map sc_init_inv_metric (sample_calls (snd (sample demo_env demo_native (?a None))))
      = [None]"
    using R [of None] by simp
  have r2: "map sc_init_inv_metric (sample_calls (snd (sample demo_env demo_native
       (?a (Some \<lparr>shape = [2, 2], elems = [1, 0, 0, 1]\<rparr>)))))
       = [Some \<lparr>shape = [2, 2, 2], elems = [1, 0, 0, 1, 1, 0, 0, 1]\<rparr>]"
    using R [of "Some \<lparr>shape = [2, 2], elems = [1, 0, 0, 1]\<rparr>"]
    by (simp add: demo_sample_args_def numeral_2_eq_2)
  have r3: "map sc_init_inv_metric (sample_calls (snd (sample demo_env demo_native
       (?a (Some \<lparr>shape = [2, 2, 2], elems = [1, 0, 0, 1, 2, 0, 0, 2]\<rparr>)))))
       = [Some \<lparr>shape = [2, 2, 2], elems = [1, 0, 0, 1, 2, 0, 0, 2]\<rparr>]"
    using R [of "Some \<lparr>shape = [2, 2, 2], elems = [1, 0, 0, 1, 2, 0, 0, 2]\<rparr>"]
    by (simp add: demo_sample_args_def)
  have r4: "sample demo_env demo_native (?a (Some \<lparr>shape = [3], elems = [1, 1, 1]\<rparr>))
       = (Inl (Exn ValueError
               ''Invalid initial metric size. Expected a (2, 2) or (2, 2, 2) matrix.''),
          [CreateModel ''simplex'' 7, NumFreeParams 2, ParamNames 2, DestroyModel 2])"
    using R [of "Some \<lparr>shape = [3], elems = [1, 1, 1]\<rparr>"]
    by (simp add: demo_sample_args_def str_int_def digit_char_def)
  show ?thesis using r1 r2 r3 r4 by (simp only: simp_thms)
qed

subsection \<open>The shape of the result of \<open>sample\<close>\<close>

lemma sample_raises_invalid:
  "\<not> (1 \<le> sa_num_chains a \<and> 0 \<le> sa_num_warmup a \<and> 1 \<le> sa_num_samples a) \<Longrightarrow>
   \<exists>e. sample E N a = (Inl e, [])"
  by (auto simp add: sample_def raise_def)

lemma raise_for_error_zero: "raise_for_error N (PyInt 0) err = (Inr (), [])"
  by (simp add: raise_for_error_def ret_def)

text \<open>
  \<open>sample\<close> does return a result: when the size checks pass, the model is constructed
  and has parameters, no initial metric is given, the initial values encode and the
  native sampling call reports success.
\<close>

lemma sample_returns:
  assumes "1 \<le> sa_num_chains a" and "0 \<le> sa_num_warmup a" and "1 \<le> sa_num_samples a"
    and "encode_stan_json E (sa_data a) = Inr enc"
    and "tinystan_create_model N enc (seed_or_rand E (sa_seed a)) = (h, err)"
    and "h \<noteq> 0"
    and "tinystan_model_num_free_params N h \<noteq> 0"
    and "sa_init_inv_metric a = None"
    and "encode_inits E N (sa_inits a) (sa_num_chains a) (seed_or_rand E (sa_seed a)) = Inr ie"
    and "\<And>c. fst (tinystan_sample N c) = 0"
  shows "\<exists>out. fst (sample E N a) = Inr out"
proof -
  have "\<exists>x. fst (sample_body E N a (seed_or_rand E (sa_seed a)) h) = Inr x"
    using assms(7,8,9,10)
    by (simp add: sample_body_def get_parameter_names_eq run_simps Let_def raise_for_error_zero)
  then show ?thesis
    using sample_valid(2) [OF assms(1-6)] by (auto split: prod.splits)
qed

text \<open>
  Claim C1, as amended. Whenever \<open>sample\<close> returns a result, its arguments satisfy
  \<open>num_chains \<ge> 1\<close>, \<open>num_warmup \<ge> 0\<close> and \<open>num_samples \<ge> 1\<close>, the model was
  constructed and reports at least one free parameter, and the buffer has the shape
  \<open>(num_chains, num_warmup * save_warmup + num_samples, 7 + K)\<close>, where \<open>K\<close> is the
  number of names that \<open>_get_parameter_names\<close> reads from the model; the \<open>7 + K\<close> column
  names are the seven fixed names of the sampler followed by those names, the first being
  \<open>lp__\<close>. The number \<open>K\<close> comes from the native string of names and not from the
  native count of free parameters, which is used for the zero check and the metric only.
\<close>

theorem sample_output_shape:
  assumes "sample E N a = (Inr out, t)"
    and "encode_stan_json E (sa_data a) = Inr enc"
    and "tinystan_create_model N enc (seed_or_rand E (sa_seed a)) = (h, err)"
    and "get_parameter_names N h = (Inr names, tn)"
  shows "shape (data out) =
           [sa_num_chains a,
            sa_num_warmup a * of_bool (sa_save_warmup a) + sa_num_samples a,
            7 + int (length names)]
     \<and> parameters out = HMC_SAMPLER_VARIABLES @ names
     \<and> length (parameters out) = 7 + length names
     \<and> parameters out ! 0 = ''lp__''
     \<and> 1 \<le> sa_num_chains a \<and> 0 \<le> sa_num_warmup a \<and> 1 \<le> sa_num_samples a
     \<and> h \<noteq> 0 \<and> tinystan_model_num_free_params N h \<noteq> 0"
proof -
  let ?seed = "seed_or_rand E (sa_seed a)"
  have valid: "1 \<le> sa_num_chains a \<and> 0 \<le> sa_num_warmup a \<and> 1 \<le> sa_num_samples a"
    using sample_raises_invalid [of a E N] assms(1) by auto
  have h: "h \<noteq> 0"
  proof
    assume "h = 0"
    then have "\<exists>e. fst (get_model E N (sa_data a) ?seed (sample_body E N a ?seed)) = Inl e"
      using assms(2,3) raise_for_error_True_raises [of N err]
      by (auto simp add: get_model_result)
    then have "\<exists>e. fst (sample E N a) = Inl e"
      using valid by (auto simp add: sample_def Let_def bind_def split: prod.splits)
    with assms(1) show False by simp
  qed
  have res: "fst (sample E N a) =
       (case fst (sample_body E N a ?seed h) of
          Inl e \<Rightarrow> Inl e
        | Inr (param_names, out, metric_out) \<Rightarrow>
            Inr (if sa_save_metric a then (StanOutput param_names out)\<lparr>metric := metric_out\<rparr>
                 else StanOutput param_names out))"
    using sample_valid(2) [of a E enc N h err] valid assms(2,3) h by simp
  obtain pn ob mo where b: "fst (sample_body E N a ?seed h) = Inr (pn, ob, mo)"
    and o: "out = (if sa_save_metric a then (StanOutput pn ob)\<lparr>metric := mo\<rparr>
                   else StanOutput pn ob)"
    using res assms(1) by (auto split: sum.splits)
  have nm: "names = (if strip (tinystan_model_param_names N h) = [] then []
                  else py_split CHR '','' (strip (tinystan_model_param_names N h)))"
    using assms(4) by (simp add: get_parameter_names_eq)
  have body: "pn = HMC_SAMPLER_VARIABLES @ names
     \<and> shape ob = [sa_num_chains a,
                     sa_num_samples a + sa_num_warmup a * of_bool (sa_save_warmup a),
                     int (length (HMC_SAMPLER_VARIABLES @ names))]
     \<and> tinystan_model_num_free_params N h \<noteq> 0"
    using sample_body_result [OF b nm] .
  have d: "data out = ob" "parameters out = pn"
    using o by (simp_all add: StanOutput_def)
  have l: "length HMC_SAMPLER_VARIABLES = 7" "HMC_SAMPLER_VARIABLES ! 0 = ''lp__''"
    by (simp_all add: HMC_SAMPLER_VARIABLES_def)
  show ?thesis
    using valid h body d l by (simp add: nth_append add.commute)
qed


theorem sample_output_shape_witness:
  "fst (sample demo_env demo_native demo_sample_args)
     = Inr \<lparr>parameters = [''lp__'', ''accept_stat__'', ''stepsize__'', ''treedepth__'',
                            ''n_leapfrog__'', ''divergent__'', ''energy__'', ''theta''],
             data = \<lparr>shape = [2, 3, 8], elems = replicate 48 0\<rparr>,
             metric = None, hessian = None\<rparr>
   \<and> shape (data (projr (fst (sample demo_env demo_native demo_sample_args)))) = [2, 3, 8]
   \<and> parameters (projr (fst (sample demo_env demo_native demo_sample_args))) ! 0 = ''lp__''"
proof -
  let ?out = "\<lparr>parameters = [''lp__'', ''accept_stat__'', ''stepsize__'', ''treedepth__'',
                            ''n_leapfrog__'', ''divergent__'', ''energy__'', ''theta''],
             data = \<lparr>shape = [2, 3, 8], elems = replicate 48 (0::real)\<rparr>,
             metric = None, hessian = None\<rparr>"
  have f: "fst (sample demo_env demo_native demo_sample_args) = Inr ?out"
    by (simp add: eval_defs demo_defs)
  then have run: "sample demo_env demo_native demo_sample_args
      = (Inr ?out, snd (sample demo_env demo_native demo_sample_args))"
    by (simp add: prod_eq_iff)
  have enc: "encode_stan_json demo_env (sa_data demo_sample_args) = Inr []"
    by (simp add: demo_defs encode_stan_json_def)
  have cr: "tinystan_create_model demo_native [] (seed_or_rand demo_env (sa_seed demo_sample_args))
      = (1, 0)"
    by (simp add: demo_defs seed_or_rand_def)
  have nm: "get_parameter_names demo_native 1 = (Inr [''theta''], [ParamNames 1])"
    by (simp add: get_parameter_names_eq demo_native_def strip_def isspace_def)
  show ?thesis
    using sample_output_shape [OF run enc cr nm] f by (simp add: demo_sample_args_def)
qed

text \<open>
  The claim as stated fails for a model whose string of names does not have one name per
  free parameter: a simplex of three components has two free parameters and three names,
  and the buffer has \<open>7 + 3\<close> columns, not \<open>7 + 2\<close>.
\<close>

theorem sample_columns_counterexample:
  "fst (sample demo_env demo_native (demo_sample_args\<lparr>sa_data := Str ''simplex''\<rparr>))
     = Inr \<lparr>parameters = [''lp__'', ''accept_stat__'', ''stepsize__'', ''treedepth__'',
                            ''n_leapfrog__'', ''divergent__'', ''energy__'',
                            ''theta.1'', ''theta.2'', ''theta.3''],
             data = \<lparr>shape = [2, 3, 10], elems = replicate 60 0\<rparr>,
             metric = None, hessian = None\<rparr>
   \<and> tinystan_create_model demo_native ''simplex'' 7 = (2, 0)
   \<and> tinystan_model_num_free_params demo_native 2 = 2
   \<and> (10::int) \<noteq> 7 + int (tinystan_model_num_free_params demo_native 2)"
  by (simp add: eval_defs demo_defs)

subsection \<open>The seed\<close>

lemma seed_or_rand_None: "seed_or_rand E None = rand_u32 E"
  by (simp add: seed_or_rand_def)

lemma seed_or_rand_zero: "seed_or_rand E (Some 0) = rand_u32 E"
  by (simp add: seed_or_rand_def)

lemma seed_or_rand_nonzero: "s \<noteq> 0 \<Longrightarrow> seed_or_rand E (Some s) = s"
  by (simp add: seed_or_rand_def)

text \<open>
  Claim C9. A seed supplied by the caller reaches the native calls unchanged when it is not
  zero, and a missing seed is replaced by the random draw, as the three lemmas above say
  for all four invokers, which share \<open>seed or rand_u32()\<close>. The supplied seed 0 is
  replaced too: on the example library, \<open>sample\<close> with \<open>seed = 0\<close> passes the random
  draw 2024 to the constructor and to the sampling call, where the claim requires 0.
\<close>

theorem sample_seed_zero_replaced:
  "rand_u32 demo_env = 2024
   \<and> map snd (creates (snd (sample demo_env demo_native (demo_sample_args\<lparr>sa_seed := Some 0\<rparr>))))
       = [2024]
   \<and> map sc_seed (sample_calls (snd (sample demo_env demo_native
                                         (demo_sample_args\<lparr>sa_seed := Some 0\<rparr>))))
       = [2024]"
  by (simp add: eval_defs demo_defs)

end
